theory Spec2Isabelle
  imports Main "HOL-Library.Word"
begin

section \<open>JavaScript strings and arrays used by server.js\<close>

text \<open>
  File names, blob names and messages are \<open>string\<close>s: a \<open>char\<close> is a code unit below
  256 (ASCII and Latin-1). The functions below are the library calls \<^verbatim>\<open>server.js\<close> makes
  on strings, with the semantics the JavaScript language and Node's \<^verbatim>\<open>path\<close> module give
  them. \<^verbatim>\<open>toLowerCase\<close> maps the letters \<open>A\<close> to \<open>Z\<close> and the capital letters of Latin-1
  (\<open>0xC0\<close> to \<open>0xDE\<close> without the sign \<open>0xD7\<close>) to the code unit 32 above.
\<close>

definition lower_char :: "char \<Rightarrow> char" where
  "lower_char c =
     (case map_of
        (zip (''ABCDEFGHIJKLMNOPQRSTUVWXYZ'' @
              [CHR 0xC0, CHR 0xC1, CHR 0xC2, CHR 0xC3, CHR 0xC4, CHR 0xC5, CHR 0xC6,
               CHR 0xC7, CHR 0xC8, CHR 0xC9, CHR 0xCA, CHR 0xCB, CHR 0xCC, CHR 0xCD,
               CHR 0xCE, CHR 0xCF, CHR 0xD0, CHR 0xD1, CHR 0xD2, CHR 0xD3, CHR 0xD4,
               CHR 0xD5, CHR 0xD6, CHR 0xD8, CHR 0xD9, CHR 0xDA, CHR 0xDB, CHR 0xDC,
               CHR 0xDD, CHR 0xDE])
             (''abcdefghijklmnopqrstuvwxyz'' @
              [CHR 0xE0, CHR 0xE1, CHR 0xE2, CHR 0xE3, CHR 0xE4, CHR 0xE5, CHR 0xE6,
               CHR 0xE7, CHR 0xE8, CHR 0xE9, CHR 0xEA, CHR 0xEB, CHR 0xEC, CHR 0xED,
               CHR 0xEE, CHR 0xEF, CHR 0xF0, CHR 0xF1, CHR 0xF2, CHR 0xF3, CHR 0xF4,
               CHR 0xF5, CHR 0xF6, CHR 0xF8, CHR 0xF9, CHR 0xFA, CHR 0xFB, CHR 0xFC,
               CHR 0xFD, CHR 0xFE])) c of
        None \<Rightarrow> c
      | Some l \<Rightarrow> l)"

definition toLowerCase :: "string \<Rightarrow> string" where
  "toLowerCase s = map lower_char s"

text \<open>\<^verbatim>\<open>xs.join(sep)\<close>.\<close>

fun join :: "string \<Rightarrow> string list \<Rightarrow> string" where
  "join sep [] = []"
| "join sep [x] = x"
| "join sep (x # y # ys) = x @ sep @ join sep (y # ys)"

text \<open>
  \<^verbatim>\<open>s.split(c)\<close> for a one-character separator: the pieces between the occurrences of
  \<open>c\<close>; the result always has at least one piece (\<^verbatim>\<open>''.split('-')\<close> is \<^verbatim>\<open>['']\<close>).
\<close>

fun split :: "char \<Rightarrow> string \<Rightarrow> string list" where
  "split c [] = [[]]"
| "split c (x # xs) =
     (if x = c then [] # split c xs
      else (case split c xs of
              [] \<Rightarrow> [[x]]
            | piece # pieces \<Rightarrow> (x # piece) # pieces))"

text \<open>\<^verbatim>\<open>xs.slice(1)\<close> and \<^verbatim>\<open>s.slice(a, b)\<close> for \<open>0 \<le> a \<le> b\<close>.\<close>

definition slice1 :: "'a list \<Rightarrow> 'a list" where
  "slice1 xs = drop 1 xs"

definition slice :: "string \<Rightarrow> nat \<Rightarrow> nat \<Rightarrow> string" where
  "slice s a b = take (b - a) (drop a s)"

text \<open>
  The decimal text of a non-negative integer, as a template literal prints the number
  \<^verbatim>\<open>Date.now()\<close> returns.
\<close>

definition digit :: "nat \<Rightarrow> char" where
  "digit d = ''0123456789'' ! d"

function decimal :: "nat \<Rightarrow> string" where
  "decimal n = (if n < 10 then [digit n] else decimal (n div 10) @ [digit (n mod 10)])"
  by pat_completeness auto
termination
  by (relation "measure id") auto

declare decimal.simps [simp del]

subsection \<open>\<^verbatim>\<open>path.extname\<close>\<close>

text \<open>
  Node's POSIX \<^verbatim>\<open>path.extname\<close> scans the path from its last character to its first:
  \<^verbatim>\<open>
  let startDot = -1; let startPart = 0; let end = -1;
  let matchedSlash = true; let preDotState = 0;
  for (let i = path.length - 1; i >= 0; --i) {
    const code = path.charCodeAt(i);
    if (code === CHAR_FORWARD_SLASH) {
      if (!matchedSlash) { startPart = i + 1; break; }
      continue;
    }
    if (end === -1) { matchedSlash = false; end = i + 1; }
    if (code === CHAR_DOT) {
      if (startDot === -1) startDot = i;
      else if (preDotState !== 1) preDotState = 1;
    } else if (startDot !== -1) {
      preDotState = -1;
    }
  }
  if (startDot === -1 || end === -1 || preDotState === 0 ||
      (preDotState === 1 && startDot === end - 1 && startDot === startPart + 1))
    return '';
  return path.slice(startDot, end);
  \<close>
  \<open>extname_scan path n st\<close> runs the iterations \<open>i = n - 1, \<dots>, 0\<close> from the state \<open>st\<close>.
\<close>

record extname_state =
  startDot :: int
  startPart :: int
  end_pos :: int
  matchedSlash :: bool
  preDotState :: int

fun extname_scan :: "string \<Rightarrow> nat \<Rightarrow> extname_state \<Rightarrow> extname_state" where
  "extname_scan path 0 st = st"
| "extname_scan path (Suc i) st =
     (if path ! i = CHR ''/'' then
        (if \<not> matchedSlash st then st\<lparr>startPart := int i + 1\<rparr>
         else extname_scan path i st)
      else
        (let st1 = (if end_pos st = - 1
                    then st\<lparr>matchedSlash := False, end_pos := int i + 1\<rparr> else st);
             st2 = (if path ! i = CHR ''.'' then
                      (if startDot st1 = - 1 then st1\<lparr>startDot := int i\<rparr>
                       else if preDotState st1 \<noteq> 1 then st1\<lparr>preDotState := 1\<rparr>
                       else st1)
                    else if startDot st1 \<noteq> - 1 then st1\<lparr>preDotState := - 1\<rparr>
                    else st1)
         in extname_scan path i st2))"

definition extname_init :: extname_state where
  "extname_init =
     \<lparr>startDot = - 1, startPart = 0, end_pos = - 1, matchedSlash = True, preDotState = 0\<rparr>"

definition extname :: "string \<Rightarrow> string" where
  "extname path =
     (let st = extname_scan path (length path) extname_init in
      if startDot st = - 1 \<or> end_pos st = - 1 \<or> preDotState st = 0 \<or>
         (preDotState st = 1 \<and> startDot st = end_pos st - 1 \<and> startDot st = startPart st + 1)
      then []
      else slice path (nat (startDot st)) (nat (end_pos st)))"


section \<open>Requests, responses and errors\<close>

text \<open>
  A \<^verbatim>\<open>Buffer\<close> is a list of bytes. \<open>jsval\<close> is the JavaScript value a handler passes to
  \<^verbatim>\<open>res.json\<close>, before serialisation: an object is the list of its properties in the
  order the source writes them, and a property whose value is \<^verbatim>\<open>undefined\<close> is kept as
  \<open>JUndefined\<close>. A \<^verbatim>\<open>Date\<close> is the number of its milliseconds.
\<close>

type_synonym bytes = "8 word list"

datatype jsval =
    JUndefined
  | JBool bool
  | JNum nat
  | JStr string
  | JArr "jsval list"
  | JObj "(string \<times> jsval) list"

text \<open>
  Reading a property, as the client does with \<^verbatim>\<open>result.success\<close> and
  \<^verbatim>\<open>result.error\<close>: a property the object does not have reads as \<^verbatim>\<open>undefined\<close>.
\<close>

fun get_prop :: "jsval \<Rightarrow> string \<Rightarrow> jsval" where
  "get_prop (JObj props) k = (case map_of props k of None \<Rightarrow> JUndefined | Some v \<Rightarrow> v)"
| "get_prop v k = JUndefined"

text \<open>
  \<^verbatim>\<open>Error\<close> and its subclass \<^verbatim>\<open>multer.MulterError\<close>, which carries a \<^verbatim>\<open>code\<close>. An
  error thrown by the storage SDK is an \<^verbatim>\<open>Error\<close> to the handlers, which read only its
  \<^verbatim>\<open>message\<close>.
\<close>

datatype js_error =
    is_Error: Error (message: string)
  | is_MulterError: MulterError (code: string) (message: string)

datatype header_value = HStr string | HNum nat

datatype res_body = NoBody | JsonBody jsval | StreamBody bytes

text \<open>
  The Express response object \<^verbatim>\<open>res\<close>: its status (200 until \<^verbatim>\<open>res.status\<close> changes
  it), the headers the handler sets with \<^verbatim>\<open>res.setHeader\<close>, and the body.
\<close>

record response =
  status :: nat
  headers :: "(string \<times> header_value) list"
  body :: res_body

text \<open>The body the client reads with \<^verbatim>\<open>await response.json()\<close>.\<close>

definition json_of :: "response \<Rightarrow> jsval" where
  "json_of res = (case body res of JsonBody v \<Rightarrow> v | _ \<Rightarrow> JUndefined)"

fun upsert :: "'k \<Rightarrow> 'v \<Rightarrow> ('k \<times> 'v) list \<Rightarrow> ('k \<times> 'v) list" where
  "upsert k v [] = [(k, v)]"
| "upsert k v (e # es) = (if fst e = k then (k, v) # es else e # upsert k v es)"

definition res_init :: response where
  "res_init = \<lparr>status = 200, headers = [], body = NoBody\<rparr>"

definition res_status :: "nat \<Rightarrow> response \<Rightarrow> response" where
  "res_status n res = res\<lparr>status := n\<rparr>"






definition res_json :: "jsval \<Rightarrow> response \<Rightarrow> response" where
  "res_json v res = res\<lparr>body := JsonBody v\<rparr>"



section \<open>The blob container\<close>

text \<open>
  The container \<^verbatim>\<open>files\<close> behind \<^verbatim>\<open>containerClient\<close>: the stored blobs by name, in the
  order \<^verbatim>\<open>listBlobsFlat\<close> enumerates them. The container answers every call: a call fails
  only with the error the service itself gives for a blob that does not exist. A blob
  keeps its bytes, the content type it was written with (if any) and the time of the
  write, which the service assigns.
\<close>

record blob_properties =
  contentLength :: nat
  contentType :: "string option"
  lastModified :: nat

record blob_item =
  name :: string
  properties :: blob_properties

record stored_blob =
  data :: bytes
  stored_type :: "string option"
  stored_time :: nat

type_synonym container = "(string \<times> stored_blob) list"


definition blob_not_found :: js_error where
  "blob_not_found = Error ''The specified blob does not exist.''"

definition blob_exists :: "container \<Rightarrow> string \<Rightarrow> bool" where
  "blob_exists c k = (map_of c k \<noteq> None)"



definition blob_delete :: "container \<Rightarrow> string \<Rightarrow> js_error + container" where
  "blob_delete c k =
     (case map_of c k of
        None \<Rightarrow> Inl blob_not_found
      | Some b \<Rightarrow> Inr (filter (\<lambda>e. fst e \<noteq> k) c))"

text \<open>
  \<^verbatim>\<open>blockBlobClient.upload(body, contentLength, {blobHTTPHeaders: {blobContentType}})\<close>
  at service time \<open>t\<close>: creates the blob or replaces the one of the same name.
\<close>

definition blob_upload ::
  "nat \<Rightarrow> container \<Rightarrow> string \<Rightarrow> bytes \<Rightarrow> nat \<Rightarrow> string \<Rightarrow> js_error + container" where
  "blob_upload t c k body' len blobContentType =
     Inr (upsert k \<lparr>data = take len body', stored_type = Some blobContentType,
                     stored_time = t\<rparr> c)"


section \<open>The upload middleware\<close>

text \<open>
  The file part of the multipart form field \<^verbatim>\<open>file\<close>, as multer's memory storage hands it
  to the handler; \<^verbatim>\<open>file.size\<close> is the length of \<^verbatim>\<open>file.buffer\<close>.
\<close>

record file_part =
  originalname :: string
  mimetype :: string
  buffer :: bytes

definition fileSize :: nat where
  "fileSize = 10 * 1024 * 1024"

definition allowedTypes :: "string list" where
  "allowedTypes =
     [''.txt'', ''.pdf'', ''.png'', ''.jpg'', ''.jpeg'', ''.gif'', ''.doc'', ''.docx'',
      ''.xls'', ''.xlsx'']"

text \<open>\<^verbatim>\<open>fileFilter\<close>: \<open>Inr True\<close> is \<^verbatim>\<open>cb(null, true)\<close>, \<open>Inl e\<close> is \<^verbatim>\<open>cb(e, false)\<close>.\<close>

definition fileFilter :: "file_part \<Rightarrow> js_error + bool" where
  "fileFilter file =
     (let fileExt = toLowerCase (extname (originalname file)) in
      if fileExt \<in> set allowedTypes then Inr True
      else Inl (Error (''File type '' @ fileExt @ '' is not allowed. Allowed types: ''
                       @ join '', '' allowedTypes)))"

text \<open>
  \<^verbatim>\<open>upload.single('file')\<close> on a request that carries the file part \<open>part\<close>, or none.
  Multer calls \<^verbatim>\<open>fileFilter\<close> when the part's header arrives, before it reads the part's
  bytes; an error of the filter aborts the request with that error. While the bytes are
  read, a part longer than \<^verbatim>\<open>limits.fileSize\<close> aborts the request with the
  \<^verbatim>\<open>MulterError\<close> of code \<^verbatim>\<open>LIMIT_FILE_SIZE\<close>. Otherwise \<^verbatim>\<open>req.file\<close> is the part. An
  error goes to the error-handling middleware and the route handler does not run.
\<close>

definition upload_single :: "file_part option \<Rightarrow> js_error + file_part option" where
  "upload_single part =
     (case part of
        None \<Rightarrow> Inr None
      | Some file \<Rightarrow>
          (case fileFilter file of
             Inl err \<Rightarrow> Inl err
           | Inr includeFile \<Rightarrow>
               if \<not> includeFile then Inr None
               else if fileSize < length (buffer file)
               then Inl (MulterError ''LIMIT_FILE_SIZE'' ''File too large'')
               else Inr (Some file)))"

text \<open>The error-handling middleware (\<^verbatim>\<open>app.use((error, req, res, next) => ...)\<close>).\<close>

definition error_middleware :: "js_error \<Rightarrow> response \<Rightarrow> response" where
  "error_middleware error res =
     (if is_MulterError error \<and> code error = ''LIMIT_FILE_SIZE''
      then res_json (JObj [(''success'', JBool False),
                           (''error'', JStr ''File too large. Maximum size is 10MB'')])
             (res_status 400 res)
      else res_json (JObj [(''success'', JBool False), (''error'', JStr (message error))])
             (res_status 500 res))"


section \<open>The routes\<close>

text \<open>
  Each handler takes the container and returns the response it sends, with the container
  after its calls where it writes. A \<^verbatim>\<open>catch\<close> block is the \<open>Inl\<close> branch of the call it
  guards.
\<close>

subsection \<open>\<^verbatim>\<open>POST /api/upload\<close>\<close>

text \<open>The blob name of line 72, for \<open>now\<close> the value of \<^verbatim>\<open>Date.now()\<close>.\<close>

definition fileName_of :: "nat \<Rightarrow> string \<Rightarrow> string" where
  "fileName_of now original = decimal now @ ''-'' @ original"

definition upload_handler ::
  "nat \<Rightarrow> nat \<Rightarrow> file_part option \<Rightarrow> container \<Rightarrow> response \<times> container" where
  "upload_handler now t req_file c =
     (case req_file of
        None \<Rightarrow>
          (res_json (JObj [(''error'', JStr ''No file uploaded'')]) (res_status 400 res_init), c)
      | Some file \<Rightarrow>
          (let fileName = fileName_of now (originalname file) in
           case blob_upload t c fileName (buffer file) (length (buffer file)) (mimetype file) of
             Inl error \<Rightarrow>
               (res_json (JObj [(''success'', JBool False),
                                (''error'', JStr (''Upload failed: '' @ message error))])
                  (res_status 500 res_init), c)
           | Inr c' \<Rightarrow>
               (res_json (JObj [(''success'', JBool True),
                                (''message'', JStr ''File uploaded successfully''),
                                (''fileName'', JStr fileName),
                                (''originalName'', JStr (originalname file)),
                                (''size'', JNum (length (buffer file))),
                                (''contentType'', JStr (mimetype file))])
                  res_init, c')))"

text \<open>
  The route: the middleware, then the handler or the error-handling middleware. \<open>now\<close> is
  the server's clock, \<open>t\<close> the storage service's.
\<close>

definition post_api_upload ::
  "nat \<Rightarrow> nat \<Rightarrow> file_part option \<Rightarrow> container \<Rightarrow> response \<times> container" where
  "post_api_upload now t part c =
     (case upload_single part of
        Inl error \<Rightarrow> (error_middleware error res_init, c)
      | Inr req_file \<Rightarrow> upload_handler now t req_file c)"

subsection \<open>\<^verbatim>\<open>GET /api/files\<close>\<close>

definition originalName_of :: "string \<Rightarrow> string" where
  "originalName_of blob_name = join ''-'' (slice1 (split CHR ''-'' blob_name))"

definition opt_str :: "string option \<Rightarrow> jsval" where
  "opt_str a = (case a of None \<Rightarrow> JUndefined | Some s \<Rightarrow> JStr s)"

text \<open>
  The object pushed for one listed blob. \<open>url\<close> gives \<^verbatim>\<open>blobClient.url\<close> for a blob name
  (the container's address and the encoded name).
\<close>

definition file_entry :: "(string \<Rightarrow> string) \<Rightarrow> blob_item \<Rightarrow> jsval" where
  "file_entry url blob =
     JObj [(''name'', JStr (name blob)),
           (''originalName'', JStr (originalName_of (name blob))),
           (''size'', JNum (contentLength (properties blob))),
           (''contentType'', opt_str (contentType (properties blob))),
           (''lastModified'', JNum (lastModified (properties blob))),
           (''url'', JStr (url (name blob)))]"





subsection \<open>\<^verbatim>\<open>GET /api/download/:fileName\<close>\<close>

definition not_found :: response where
  "not_found =
     res_json (JObj [(''success'', JBool False), (''error'', JStr ''File not found'')])
       (res_status 404 res_init)"


subsection \<open>\<^verbatim>\<open>DELETE /api/files/:fileName\<close>\<close>

definition delete_api_files :: "string \<Rightarrow> container \<Rightarrow> response \<times> container" where
  "delete_api_files fileName c =
     (if \<not> blob_exists c fileName then (not_found, c)
      else
        (case blob_delete c fileName of
           Inl error \<Rightarrow>
             (res_json (JObj [(''success'', JBool False),
                              (''error'', JStr (''Delete failed: '' @ message error))])
                (res_status 500 res_init), c)
         | Inr c' \<Rightarrow>
             (res_json (JObj [(''success'', JBool True),
                              (''message'', JStr ''File deleted successfully'')])
                res_init, c')))"


section \<open>Properties of the string functions\<close>

subsection \<open>\<^verbatim>\<open>path.extname\<close> on a name without a path separator\<close>

text \<open>
  Without a \<open>/\<close> the scan never leaves the loop early. The lemmas follow one field of the
  state each through the iterations.
\<close>

lemma scan_startPart:
  "\<forall>j<n. path ! j \<noteq> CHR ''/'' \<Longrightarrow> startPart (extname_scan path n st) = startPart st"
  by (induction n arbitrary: st) (simp_all add: Let_def)

lemma scan_end_keep:
  "\<forall>j<n. path ! j \<noteq> CHR ''/'' \<Longrightarrow> end_pos st \<noteq> - 1 \<Longrightarrow>
   end_pos (extname_scan path n st) = end_pos st"
  by (induction n arbitrary: st) (simp_all add: Let_def)

lemma scan_startDot_keep:
  "\<forall>j<n. path ! j \<noteq> CHR ''/'' \<Longrightarrow> startDot st \<noteq> - 1 \<Longrightarrow>
   startDot (extname_scan path n st) = startDot st"
  by (induction n arbitrary: st) (simp_all add: Let_def)

lemma scan_no_dot:
  "\<forall>j<n. path ! j \<noteq> CHR ''/'' \<and> path ! j \<noteq> CHR ''.'' \<Longrightarrow> startDot st = - 1 \<Longrightarrow>
   startDot (extname_scan path n st) = - 1"
  by (induction n arbitrary: st) (simp_all add: Let_def)

lemma scan_preDot:
  "\<forall>j<n. path ! j \<noteq> CHR ''/'' \<Longrightarrow> startDot st \<noteq> - 1 \<Longrightarrow> 0 < n \<Longrightarrow>
   preDotState (extname_scan path n st) = (if path ! 0 = CHR ''.'' then 1 else - 1)"
proof (induction n arbitrary: st)
  case 0
  then show ?case by simp
next
  case (Suc n)
  show ?case
  proof (cases n)
    case 0
    with Suc.prems show ?thesis by (simp add: Let_def)
  next
    case (Suc m)
    with Suc.prems Suc.IH show ?thesis by (simp add: Let_def)
  qed
qed


lemma scan_suffix:
  "\<forall>j. m \<le> j \<and> j < m + k \<longrightarrow> path ! j \<noteq> CHR ''/'' \<and> path ! j \<noteq> CHR ''.'' \<Longrightarrow>
   startDot st = - 1 \<Longrightarrow> preDotState st = 0 \<Longrightarrow>
   \<exists>st'. extname_scan path (m + k) st = extname_scan path m st' \<and>
         startDot st' = - 1 \<and> preDotState st' = 0 \<and> startPart st' = startPart st \<and>
         end_pos st' = (if end_pos st = - 1 \<and> 0 < k then int (m + k) else end_pos st)"
proof (induction k arbitrary: st)
  case 0
  then show ?case by auto
next
  case (Suc k)
  let ?st1 = "if end_pos st = - 1
              then st\<lparr>matchedSlash := False, end_pos := int (m + k) + 1\<rparr> else st"
  from Suc.prems have here: "path ! (m + k) \<noteq> CHR ''/''" "path ! (m + k) \<noteq> CHR ''.''"
    by simp_all
  have step: "extname_scan path (m + Suc k) st = extname_scan path (m + k) ?st1"
    using here Suc.prems(2) by (simp add: Let_def)
  have rest: "\<forall>j. m \<le> j \<and> j < m + k \<longrightarrow> path ! j \<noteq> CHR ''/'' \<and> path ! j \<noteq> CHR ''.''"
    using Suc.prems(1) by simp
  have "startDot ?st1 = - 1" "preDotState ?st1 = 0"
    using Suc.prems by simp_all
  from Suc.IH [OF rest this] obtain st' where
    st': "extname_scan path (m + k) ?st1 = extname_scan path m st'"
      "startDot st' = - 1" "preDotState st' = 0" "startPart st' = startPart ?st1"
      "end_pos st' = (if end_pos ?st1 = - 1 \<and> 0 < k then int (m + k) else end_pos ?st1)"
    by blast
  show ?case
    using step st' by (intro exI [of _ st']) (auto split: if_splits)
qed

lemma extname_no_dot:
  assumes "CHR ''/'' \<notin> set path" "CHR ''.'' \<notin> set path"
  shows "extname path = []"
proof -
  have "\<forall>j<length path. path ! j \<noteq> CHR ''/'' \<and> path ! j \<noteq> CHR ''.''"
    using assms by (metis nth_mem)
  then have "startDot (extname_scan path (length path) extname_init) = - 1"
    by (rule scan_no_dot) (simp add: extname_init_def)
  then show ?thesis by (simp add: extname_def)
qed

lemma extname_last_dot:
  assumes "CHR ''/'' \<notin> set pre" "CHR ''/'' \<notin> set suf" "CHR ''.'' \<notin> set suf"
  shows "extname (pre @ CHR ''.'' # suf) =
           (if pre = [] \<or> (pre = ''.'' \<and> suf = []) then [] else CHR ''.'' # suf)"
proof -
  let ?path = "pre @ CHR ''.'' # suf"
  let ?m = "Suc (length pre)"
  have len: "length ?path = ?m + length suf" by simp
  have "CHR ''/'' \<notin> set ?path"
    using assms(1,2) by simp
  then have noslash: "\<forall>j<length ?path. ?path ! j \<noteq> CHR ''/''"
    by (metis nth_mem)
  have suf: "\<forall>j. ?m \<le> j \<and> j < ?m + length suf \<longrightarrow>
               ?path ! j \<noteq> CHR ''/'' \<and> ?path ! j \<noteq> CHR ''.''"
  proof (intro allI impI)
    fix j assume j: "?m \<le> j \<and> j < ?m + length suf"
    then have "?path ! j = suf ! (j - ?m)"
      by (simp add: nth_append nth_Cons')
    moreover have "suf ! (j - ?m) \<in> set suf" using j by (intro nth_mem) auto
    ultimately show "?path ! j \<noteq> CHR ''/'' \<and> ?path ! j \<noteq> CHR ''.''"
      using assms(2,3) by auto
  qed
  have init: "startDot extname_init = - 1" "preDotState extname_init = 0"
    "startPart extname_init = 0" "end_pos extname_init = - 1"
    by (simp_all add: extname_init_def)
  from scan_suffix [OF suf init(1,2)] obtain st' where
    st'0: "extname_scan ?path (?m + length suf) extname_init = extname_scan ?path ?m st'"
      "startDot st' = - 1" "preDotState st' = 0" "startPart st' = startPart extname_init"
      "end_pos st' = (if end_pos extname_init = - 1 \<and> 0 < length suf
                      then int (?m + length suf) else end_pos extname_init)"
    by blast
  have st': "extname_scan ?path (?m + length suf) extname_init = extname_scan ?path ?m st'"
      "startDot st' = - 1" "preDotState st' = 0" "startPart st' = 0"
      "end_pos st' = (if 0 < length suf then int (?m + length suf) else - 1)"
    using st'0 init by simp_all
  define st2 where "st2 = (if end_pos st' = - 1
      then st'\<lparr>matchedSlash := False, end_pos := int (length pre) + 1\<rparr> else st')
      \<lparr>startDot := int (length pre)\<rparr>"
  have dot: "extname_scan ?path ?m st' = extname_scan ?path (length pre) st2"
    using st'(2) by (simp add: Let_def st2_def)
  have st2: "startDot st2 = int (length pre)" "preDotState st2 = 0" "startPart st2 = 0"
    "end_pos st2 = int (length ?path)"
    using st' by (simp_all add: st2_def)
  have nos: "\<forall>j<length pre. ?path ! j \<noteq> CHR ''/''"
  proof (intro allI impI)
    fix j assume "j < length pre"
    then have "j < length ?path" by simp
    with noslash show "?path ! j \<noteq> CHR ''/''" by blast
  qed
  let ?fin = "extname_scan ?path (length ?path) extname_init"
  have fin: "?fin = extname_scan ?path (length pre) st2"
    using st'(1) dot len by (simp del: extname_scan.simps)
  have sd: "startDot ?fin = int (length pre)"
    unfolding fin using scan_startDot_keep [OF nos, of st2] st2 by simp
  have sp: "startPart ?fin = 0"
    unfolding fin using scan_startPart [OF nos, of st2] st2 by simp
  have en: "end_pos ?fin = int (length ?path)"
    unfolding fin using scan_end_keep [OF nos, of st2] st2 by simp
  have pd: "preDotState ?fin = (if pre = [] then 0 else if hd pre = CHR ''.'' then 1 else - 1)"
  proof (cases pre)
    case Nil
    then show ?thesis unfolding fin using st2 by simp
  next
    case (Cons a as)
    then have "0 < length pre" by simp
    from scan_preDot [OF nos _ this, of st2] st2 Cons show ?thesis
      unfolding fin by simp
  qed
  have sl: "slice ?path (length pre) (length ?path) = CHR ''.'' # suf"
    by (simp add: slice_def)
  have ext: "extname ?path =
      (if preDotState ?fin = 0 \<or> (preDotState ?fin = 1 \<and> suf = [] \<and> length pre = 1)
       then [] else CHR ''.'' # suf)"
    unfolding extname_def Let_def sd sp en nat_int sl by auto
  show ?thesis
  proof (cases pre)
    case Nil
    then show ?thesis unfolding ext pd by simp
  next
    case (Cons a as)
    then show ?thesis unfolding ext pd by auto
  qed
qed


subsection \<open>\<^verbatim>\<open>split\<close>, \<^verbatim>\<open>join\<close> and the blob name\<close>

lemma split_not_Nil: "split c s \<noteq> []"
  by (induction s) (auto split: list.splits)

lemma split_no_sep: "c \<notin> set s \<Longrightarrow> split c s = [s]"
  by (induction s) auto

lemma split_first_sep: "c \<notin> set ts \<Longrightarrow> split c (ts @ c # rest) = ts # split c rest"
  by (induction ts) auto

lemma join_Cons_Cons: "join sep ((x # piece) # pieces) = x # join sep (piece # pieces)"
  by (cases pieces) simp_all

lemma join_split: "join [c] (split c s) = s"
proof (induction s)
  case Nil
  show ?case by simp
next
  case (Cons x xs)
  obtain piece pieces where sp: "split c xs = piece # pieces"
    using split_not_Nil [of c xs] by (cases "split c xs") auto
  show ?case
  proof (cases "x = c")
    case True
    with Cons sp show ?thesis by simp
  next
    case False
    with Cons sp show ?thesis by (simp add: join_Cons_Cons)
  qed
qed

lemma originalName_of_prefix:
  "CHR ''-'' \<notin> set ts \<Longrightarrow> originalName_of (ts @ CHR ''-'' # rest) = rest"
  using join_split [of "CHR ''-''" rest]
  by (simp add: originalName_of_def slice1_def split_first_sep)

lemma originalName_of_no_dash:
  "CHR ''-'' \<notin> set blob_name \<Longrightarrow> originalName_of blob_name = []"
  by (simp add: originalName_of_def slice1_def split_no_sep)

lemma digit_not_dash: "d < 10 \<Longrightarrow> digit d \<noteq> CHR ''-''"
proof -
  assume "d < 10"
  then have "digit d \<in> set ''0123456789''"
    unfolding digit_def by (intro nth_mem) simp
  then show ?thesis by auto
qed

lemma decimal_no_dash: "CHR ''-'' \<notin> set (decimal n)"
proof (induction n rule: decimal.induct)
  case (1 n)
  show ?case
  proof (cases "n < 10")
    case True
    then show ?thesis using digit_not_dash [of n] by (simp add: decimal.simps)
  next
    case False
    have "n mod 10 < 10" by simp
    from digit_not_dash [OF this] "1" False show ?thesis
      by (subst decimal.simps) auto
  qed
qed

lemma originalName_of_fileName_of: "originalName_of (fileName_of now original) = original"
  using originalName_of_prefix [OF decimal_no_dash, of now original]
  by (simp add: fileName_of_def)

section \<open>Properties of the container\<close>

lemma map_of_upsert: "map_of (upsert k v c) = (map_of c)(k \<mapsto> v)"
  by (induction c) (auto simp: fun_eq_iff)

lemma keys_upsert_present: "k \<in> fst ` set c \<Longrightarrow> map fst (upsert k v c) = map fst c"
  by (induction c) auto

lemma map_of_remove_same: "map_of (filter (\<lambda>e. fst e \<noteq> k) c) k = None"
  by (induction c) auto

lemma map_of_remove_other: "k' \<noteq> k \<Longrightarrow> map_of (filter (\<lambda>e. fst e \<noteq> k) c) k' = map_of c k'"
  by (induction c) auto

section \<open>What each route answers\<close>

















lemma delete_absent: "map_of c k = None \<Longrightarrow> delete_api_files k c = (not_found, c)"
  by (simp add: delete_api_files_def blob_exists_def)

lemma delete_present:
  "map_of c k = Some b \<Longrightarrow>
   delete_api_files k c =
     (\<lparr>status = 200, headers = [],
       body = JsonBody (JObj [(''success'', JBool True),
                              (''message'', JStr ''File deleted successfully'')])\<rparr>,
      filter (\<lambda>e. fst e \<noteq> k) c)"
  by (simp add: delete_api_files_def blob_exists_def blob_delete_def res_json_def res_init_def)

lemma not_found_eq:
  "not_found =
     \<lparr>status = 404, headers = [],
      body = JsonBody (JObj [(''success'', JBool False), (''error'', JStr ''File not found'')])\<rparr>"
  by (simp add: not_found_def res_json_def res_status_def res_init_def)

lemma fileFilter_cases:
  "fileFilter file = Inr True \<or>
   fileFilter file =
     Inl (Error (''File type '' @ toLowerCase (extname (originalname file))
                 @ '' is not allowed. Allowed types: '' @ join '', '' allowedTypes))"
  by (simp add: fileFilter_def Let_def)

lemma join_allowedTypes:
  "join '', '' allowedTypes =
     ''.txt, .pdf, .png, .jpg, .jpeg, .gif, .doc, .docx, .xls, .xlsx''"
  by (simp add: allowedTypes_def)

lemma upload_accepted:
  "fileFilter file = Inr True \<Longrightarrow> length (buffer file) \<le> fileSize \<Longrightarrow>
   post_api_upload now t (Some file) c =
     (\<lparr>status = 200, headers = [],
       body = JsonBody (JObj [(''success'', JBool True),
                              (''message'', JStr ''File uploaded successfully''),
                              (''fileName'', JStr (fileName_of now (originalname file))),
                              (''originalName'', JStr (originalname file)),
                              (''size'', JNum (length (buffer file))),
                              (''contentType'', JStr (mimetype file))])\<rparr>,
      upsert (fileName_of now (originalname file))
        \<lparr>data = buffer file, stored_type = Some (mimetype file), stored_time = t\<rparr> c)"
  by (simp add: post_api_upload_def upload_single_def upload_handler_def blob_upload_def
      res_json_def res_init_def Let_def)

lemma upload_too_large:
  "fileFilter file = Inr True \<Longrightarrow> fileSize < length (buffer file) \<Longrightarrow>
   upload_single (Some file) = Inl (MulterError ''LIMIT_FILE_SIZE'' ''File too large'') \<and>
   post_api_upload now t (Some file) c =
     (\<lparr>status = 400, headers = [],
       body = JsonBody (JObj [(''success'', JBool False),
                              (''error'', JStr ''File too large. Maximum size is 10MB'')])\<rparr>, c)"
  by (simp add: post_api_upload_def upload_single_def error_middleware_def
      res_json_def res_status_def res_init_def)

lemma upload_filtered:
  "fileFilter file = Inl (Error msg) \<Longrightarrow>
   upload_single (Some file) = Inl (Error msg) \<and>
   post_api_upload now t (Some file) c =
     (\<lparr>status = 500, headers = [],
       body = JsonBody (JObj [(''success'', JBool False), (''error'', JStr msg)])\<rparr>, c)"
  by (simp add: post_api_upload_def upload_single_def error_middleware_def
      res_json_def res_status_def res_init_def)

lemma upload_no_file:
  "post_api_upload now t None c =
     (\<lparr>status = 400, headers = [],
       body = JsonBody (JObj [(''error'', JStr ''No file uploaded'')])\<rparr>, c)"
  by (simp add: post_api_upload_def upload_single_def upload_handler_def
      res_json_def res_status_def res_init_def)

lemma toLowerCase_dot: "toLowerCase (CHR ''.'' # s) = CHR ''.'' # toLowerCase s"
  by (simp add: toLowerCase_def lower_char_def)

lemma Nil_not_allowed: "[] \<notin> set allowedTypes" "''.'' \<notin> set allowedTypes"
  by (simp_all add: allowedTypes_def)


lemma fileFilter_accepts:
  "fileFilter file = Inr True \<longleftrightarrow> toLowerCase (extname (originalname file)) \<in> set allowedTypes"
  by (simp add: fileFilter_def Let_def)

lemma allowed_last_dot:
  assumes "CHR ''/'' \<notin> set path"
  shows "toLowerCase (extname path) \<in> set allowedTypes \<longleftrightarrow>
           (\<exists>pre suf. path = pre @ CHR ''.'' # suf \<and> pre \<noteq> [] \<and> CHR ''.'' \<notin> set suf \<and>
              CHR ''.'' # toLowerCase suf \<in> set allowedTypes)"
proof
  assume m: "toLowerCase (extname path) \<in> set allowedTypes"
  then have ne: "extname path \<noteq> []"
    using Nil_not_allowed(1) by (auto simp: toLowerCase_def)
  then have "CHR ''.'' \<in> set path"
    using extname_no_dot [OF assms] by blast
  then obtain pre suf where d: "path = pre @ CHR ''.'' # suf" "CHR ''.'' \<notin> set suf"
    by (meson split_list_last)
  have "CHR ''/'' \<notin> set pre" "CHR ''/'' \<notin> set suf"
    using assms d(1) by auto
  from extname_last_dot [OF this d(2)] ne d(1)
  have "pre \<noteq> []" "extname path = CHR ''.'' # suf"
    by (auto split: if_splits)
  with m d show "\<exists>pre suf. path = pre @ CHR ''.'' # suf \<and> pre \<noteq> [] \<and> CHR ''.'' \<notin> set suf \<and>
              CHR ''.'' # toLowerCase suf \<in> set allowedTypes"
    by (auto simp: toLowerCase_dot)
next
  assume "\<exists>pre suf. path = pre @ CHR ''.'' # suf \<and> pre \<noteq> [] \<and> CHR ''.'' \<notin> set suf \<and>
              CHR ''.'' # toLowerCase suf \<in> set allowedTypes"
  then obtain pre suf where d: "path = pre @ CHR ''.'' # suf" "pre \<noteq> []"
      "CHR ''.'' \<notin> set suf" "CHR ''.'' # toLowerCase suf \<in> set allowedTypes"
    by blast
  have "suf \<noteq> []"
    using d(4) Nil_not_allowed(2) by (auto simp: toLowerCase_def)
  moreover have "CHR ''/'' \<notin> set pre" "CHR ''/'' \<notin> set suf"
    using assms d(1) by auto
  ultimately have "extname path = CHR ''.'' # suf"
    using extname_last_dot [OF _ _ d(3), of pre] d(1,2) by simp
  then show "toLowerCase (extname path) \<in> set allowedTypes"
    using d(4) by (simp add: toLowerCase_dot)
qed

lemma extname_dot_txt: "extname ''.txt'' = []"
  using extname_last_dot [of "[]" "''txt''"] by simp

subsection \<open>Sample names\<close>

lemma extname_notes_txt: "extname ''notes.txt'' = ''.txt''"
  using extname_last_dot [of "''notes''" "''txt''"] by simp

lemma extname_exe: "extname ''malware.exe'' = ''.exe''" "extname ''big.exe'' = ''.exe''"
  using extname_last_dot [of "''malware''" "''exe''"] extname_last_dot [of "''big''" "''exe''"]
  by simp_all

lemma fileFilter_notes_txt:
  "fileFilter \<lparr>originalname = ''notes.txt'', mimetype = m, buffer = b\<rparr> = Inr True"
  by (simp add: fileFilter_def extname_notes_txt toLowerCase_def lower_char_def allowedTypes_def)

lemma fileFilter_exe:
  "fileFilter \<lparr>originalname = ''malware.exe'', mimetype = m, buffer = b\<rparr> =
     Inl (Error ''File type .exe is not allowed. Allowed types: .txt, .pdf, .png, .jpg, .jpeg, .gif, .doc, .docx, .xls, .xlsx'')"
  "fileFilter \<lparr>originalname = ''big.exe'', mimetype = m, buffer = b\<rparr> =
     Inl (Error ''File type .exe is not allowed. Allowed types: .txt, .pdf, .png, .jpg, .jpeg, .gif, .doc, .docx, .xls, .xlsx'')"
  by (simp_all add: fileFilter_def extname_exe toLowerCase_def lower_char_def allowedTypes_def)

lemma decimal_17: "decimal 17 = ''17''"
  by (simp add: decimal.simps digit_def)




subsection \<open>When an upload succeeds\<close>

lemma upload_success_only:
  assumes "status (fst (post_api_upload now t part c)) = 200"
  shows "\<exists>f. part = Some f \<and> fileFilter f = Inr True \<and> length (buffer f) \<le> fileSize"
proof (cases part)
  case None
  with assms show ?thesis by (simp add: upload_no_file)
next
  case (Some f)
  show ?thesis
  proof (cases "fileFilter f = Inr True")
    case True
    show ?thesis
    proof (cases "fileSize < length (buffer f)")
      case True
      with upload_too_large [OF \<open>fileFilter f = Inr True\<close> True, of now t c] assms Some
      show ?thesis by simp
    next
      case False
      with True Some show ?thesis by simp
    qed
  next
    case False
    then obtain msg where "fileFilter f = Inl (Error msg)"
      using fileFilter_cases [of f] by blast
    from upload_filtered [OF this, of now t c] assms Some show ?thesis by simp
  qed
qed

section \<open>The claims of the specification\<close>

subsection \<open>The type filter\<close>

text \<open>
  C1, as the specification states it: \<^verbatim>\<open>fileFilter\<close> accepts a name exactly when the text
  after its last \<open>.\<close>, in lower case, is in the allow-list. The name \<^verbatim>\<open>.txt\<close> refutes it:
  the text after its last \<open>.\<close> is \<^verbatim>\<open>txt\<close>, which is in the list, and the filter rejects the
  name, because \<^verbatim>\<open>path.extname\<close> gives no extension to a name whose only \<open>.\<close> is its first
  character.
\<close>

theorem fileFilter_leading_dot_counterexample:
  "''.txt'' = CHR ''.'' # ''txt'' \<and> CHR ''.'' \<notin> set ''txt'' \<and>
   CHR ''.'' # toLowerCase ''txt'' \<in> set allowedTypes \<and>
   fileFilter \<lparr>originalname = ''.txt'', mimetype = ''text/plain'', buffer = []\<rparr> =
     Inl (Error ''File type  is not allowed. Allowed types: .txt, .pdf, .png, .jpg, .jpeg, .gif, .doc, .docx, .xls, .xlsx'')"
proof -
  have "CHR ''.'' # toLowerCase ''txt'' \<in> set allowedTypes"
    by (simp add: toLowerCase_def lower_char_def allowedTypes_def)
  moreover have "fileFilter \<lparr>originalname = ''.txt'', mimetype = ''text/plain'', buffer = []\<rparr> =
     Inl (Error ''File type  is not allowed. Allowed types: .txt, .pdf, .png, .jpg, .jpeg, .gif, .doc, .docx, .xls, .xlsx'')"
    by (simp add: fileFilter_def extname_dot_txt toLowerCase_def allowedTypes_def)
  ultimately show ?thesis by simp
qed

text \<open>
  C1, amended: for a file name without a path separator, \<^verbatim>\<open>fileFilter\<close> accepts exactly
  when the name has a \<open>.\<close> that is not its first character and the text after the last
  \<open>.\<close>, in lower case and with the \<open>.\<close> in front, is in \<^verbatim>\<open>allowedTypes\<close>. Every other name
  is rejected with an \<^verbatim>\<open>Error\<close> whose message carries the lower-cased extension and the
  allow-list; a name with no \<open>.\<close> is rejected with the empty extension.
\<close>

theorem fileFilter_accepts_iff:
  assumes "CHR ''/'' \<notin> set (originalname file)"
  shows "(fileFilter file = Inr True \<longleftrightarrow>
            (\<exists>pre suf. originalname file = pre @ CHR ''.'' # suf \<and> pre \<noteq> [] \<and>
               CHR ''.'' \<notin> set suf \<and> CHR ''.'' # toLowerCase suf \<in> set allowedTypes)) \<and>
         (fileFilter file \<noteq> Inr True \<longrightarrow>
            fileFilter file =
              Inl (Error (''File type '' @ toLowerCase (extname (originalname file)) @
                '' is not allowed. Allowed types: .txt, .pdf, .png, .jpg, .jpeg, .gif, .doc, .docx, .xls, .xlsx''))) \<and>
         (CHR ''.'' \<notin> set (originalname file) \<longrightarrow>
            fileFilter file =
              Inl (Error ''File type  is not allowed. Allowed types: .txt, .pdf, .png, .jpg, .jpeg, .gif, .doc, .docx, .xls, .xlsx''))"
proof -
  have a: "fileFilter file = Inr True \<longleftrightarrow>
            (\<exists>pre suf. originalname file = pre @ CHR ''.'' # suf \<and> pre \<noteq> [] \<and>
               CHR ''.'' \<notin> set suf \<and> CHR ''.'' # toLowerCase suf \<in> set allowedTypes)"
    unfolding fileFilter_accepts by (rule allowed_last_dot [OF assms])
  have b: "fileFilter file \<noteq> Inr True \<longrightarrow>
            fileFilter file =
              Inl (Error (''File type '' @ toLowerCase (extname (originalname file)) @
                '' is not allowed. Allowed types: .txt, .pdf, .png, .jpg, .jpeg, .gif, .doc, .docx, .xls, .xlsx''))"
    using fileFilter_cases [of "file"] by (auto simp: join_allowedTypes)
  have c: "CHR ''.'' \<notin> set (originalname file) \<longrightarrow>
            fileFilter file =
              Inl (Error ''File type  is not allowed. Allowed types: .txt, .pdf, .png, .jpg, .jpeg, .gif, .doc, .docx, .xls, .xlsx'')"
  proof
    assume "CHR ''.'' \<notin> set (originalname file)"
    then have e: "extname (originalname file) = []"
      using extname_no_dot [OF assms] by blast
    then have "fileFilter file \<noteq> Inr True"
      using Nil_not_allowed(1) by (simp add: fileFilter_accepts toLowerCase_def)
    with b show "fileFilter file =
              Inl (Error ''File type  is not allowed. Allowed types: .txt, .pdf, .png, .jpg, .jpeg, .gif, .doc, .docx, .xls, .xlsx'')"
      by (simp add: e toLowerCase_def)
  qed
  from a b c show ?thesis by blast
qed

theorem fileFilter_accepts_iff_witness:
  "CHR ''/'' \<notin> set ''Report.PDF'' \<and>
   fileFilter \<lparr>originalname = ''Report.PDF'', mimetype = ''application/pdf'', buffer = []\<rparr> = Inr True \<and>
   CHR ''/'' \<notin> set ''README'' \<and> CHR ''.'' \<notin> set ''README'' \<and>
   fileFilter \<lparr>originalname = ''README'', mimetype = ''text/plain'', buffer = []\<rparr> =
     Inl (Error ''File type  is not allowed. Allowed types: .txt, .pdf, .png, .jpg, .jpeg, .gif, .doc, .docx, .xls, .xlsx'')"
proof -
  let ?f = "\<lparr>originalname = ''Report.PDF'', mimetype = ''application/pdf'', buffer = []\<rparr>"
  let ?g = "\<lparr>originalname = ''README'', mimetype = ''text/plain'', buffer = []\<rparr>"
  have s: "CHR ''/'' \<notin> set (originalname ?f)" "CHR ''/'' \<notin> set (originalname ?g)"
    by simp_all
  have "originalname ?f = ''Report'' @ CHR ''.'' # ''PDF'' \<and> ''Report'' \<noteq> [] \<and>
        CHR ''.'' \<notin> set ''PDF'' \<and> CHR ''.'' # toLowerCase ''PDF'' \<in> set allowedTypes"
    by (simp add: toLowerCase_def lower_char_def allowedTypes_def)
  then have "\<exists>pre suf. originalname ?f = pre @ CHR ''.'' # suf \<and> pre \<noteq> [] \<and>
        CHR ''.'' \<notin> set suf \<and> CHR ''.'' # toLowerCase suf \<in> set allowedTypes"
    by blast
  with fileFilter_accepts_iff [OF s(1)] have "fileFilter ?f = Inr True"
    by blast
  moreover have "CHR ''.'' \<notin> set (originalname ?g)" by simp
  with fileFilter_accepts_iff [OF s(2)] have "fileFilter ?g =
     Inl (Error ''File type  is not allowed. Allowed types: .txt, .pdf, .png, .jpg, .jpeg, .gif, .doc, .docx, .xls, .xlsx'')"
    by blast
  ultimately show ?thesis by simp
qed

subsection \<open>Uploading\<close>

text \<open>
  C2, as the specification states it: every upload of more than 10 MiB is rejected as too
  large with status 400, whatever its extension. The upload of \<^verbatim>\<open>big.exe\<close> with one byte
  more than \<^verbatim>\<open>fileSize\<close> refutes it: the type filter runs before the bytes are read, and
  the request ends with the filter's error and status 500.
\<close>

theorem oversize_exe_counterexample:
  "fileSize = 10 * 1024 * 1024 \<and>
   fileSize < length (replicate (Suc fileSize) (0 :: 8 word)) \<and>
   post_api_upload 0 0
     (Some \<lparr>originalname = ''big.exe'', mimetype = ''application/octet-stream'',
             buffer = replicate (Suc fileSize) 0\<rparr>) [] =
     (\<lparr>status = 500, headers = [],
       body = JsonBody (JObj [(''success'', JBool False),
                              (''error'', JStr ''File type .exe is not allowed. Allowed types: .txt, .pdf, .png, .jpg, .jpeg, .gif, .doc, .docx, .xls, .xlsx'')])\<rparr>,
      [])"
proof -
  have "fileSize = 10 * 1024 * 1024" by (simp add: fileSize_def)
  moreover have "fileSize < length (replicate (Suc fileSize) (0 :: 8 word))" by simp
  moreover note upload_filtered [OF fileFilter_exe(2), of "''application/octet-stream''"
      "replicate (Suc fileSize) 0" 0 0 "[]"]
  ultimately show ?thesis by blast
qed

text \<open>
  C2, amended: an upload of more than 10 MiB (10 * 1024 * 1024 bytes) writes no blob,
  whatever its extension; when its name passes the type filter it is rejected with the
  \<^verbatim>\<open>MulterError\<close> of code \<^verbatim>\<open>LIMIT_FILE_SIZE\<close> and answered with status 400 and
  \<^verbatim>\<open>File too large. Maximum size is 10MB\<close>.
\<close>

theorem oversize_upload_rejected:
  assumes "fileSize < length (buffer f)"
  shows "fileSize = 10 * 1024 * 1024 \<and>
         snd (post_api_upload now t (Some f) c) = c \<and>
         (fileFilter f = Inr True \<longrightarrow>
            upload_single (Some f) = Inl (MulterError ''LIMIT_FILE_SIZE'' ''File too large'') \<and>
            fst (post_api_upload now t (Some f) c) =
              \<lparr>status = 400, headers = [],
               body = JsonBody (JObj [(''success'', JBool False),
                                      (''error'', JStr ''File too large. Maximum size is 10MB'')])\<rparr>)"
proof (cases "fileFilter f = Inr True")
  case True
  from upload_too_large [OF True assms, of now t c] show ?thesis
    by (simp add: fileSize_def)
next
  case False
  then obtain msg where "fileFilter f = Inl (Error msg)"
    using fileFilter_cases [of f] by blast
  from upload_filtered [OF this, of now t c] False show ?thesis
    by (simp add: fileSize_def)
qed

theorem oversize_upload_rejected_witness:
  "fileSize < length (buffer \<lparr>originalname = ''notes.txt'', mimetype = ''text/plain'',
                              buffer = replicate (Suc fileSize) 0\<rparr>) \<and>
   fileFilter \<lparr>originalname = ''notes.txt'', mimetype = ''text/plain'',
               buffer = replicate (Suc fileSize) 0\<rparr> = Inr True \<and>
   post_api_upload 17 3
     (Some \<lparr>originalname = ''notes.txt'', mimetype = ''text/plain'',
             buffer = replicate (Suc fileSize) 0\<rparr>) [] =
     (\<lparr>status = 400, headers = [],
       body = JsonBody (JObj [(''success'', JBool False),
                              (''error'', JStr ''File too large. Maximum size is 10MB'')])\<rparr>, [])"
proof -
  let ?f = "\<lparr>originalname = ''notes.txt'', mimetype = ''text/plain'',
             buffer = replicate (Suc fileSize) (0 :: 8 word)\<rparr>"
  have big: "fileSize < length (buffer ?f)" by simp
  have ok: "fileFilter ?f = Inr True" by (rule fileFilter_notes_txt)
  from oversize_upload_rejected [OF big, of 17 3 "[]"] ok
  have "snd (post_api_upload 17 3 (Some ?f) []) = []"
    "fst (post_api_upload 17 3 (Some ?f) []) =
              \<lparr>status = 400, headers = [],
               body = JsonBody (JObj [(''success'', JBool False),
                                      (''error'', JStr ''File too large. Maximum size is 10MB'')])\<rparr>"
    by blast+
  then have "post_api_upload 17 3 (Some ?f) [] =
     (\<lparr>status = 400, headers = [],
       body = JsonBody (JObj [(''success'', JBool False),
                              (''error'', JStr ''File too large. Maximum size is 10MB'')])\<rparr>, [])"
    by (simp add: prod_eq_iff)
  with big ok show ?thesis by blast
qed

text \<open>
  C7 says that an upload with an extension outside the allow-list, such as
  \<^verbatim>\<open>malware.exe\<close>, is answered with status 400 and writes no blob. The route writes no
  blob, and answers with status 500: the filter's error is an \<^verbatim>\<open>Error\<close>, not a
  \<^verbatim>\<open>MulterError\<close>, and the error-handling middleware answers 400 for
  \<^verbatim>\<open>LIMIT_FILE_SIZE\<close> alone.
\<close>

theorem malware_exe_upload:
  "post_api_upload now t (Some \<lparr>originalname = ''malware.exe'', mimetype = m, buffer = b\<rparr>) c =
     (\<lparr>status = 500, headers = [],
       body = JsonBody (JObj [(''success'', JBool False),
                              (''error'', JStr ''File type .exe is not allowed. Allowed types: .txt, .pdf, .png, .jpg, .jpeg, .gif, .doc, .docx, .xls, .xlsx'')])\<rparr>,
      c)"
  using upload_filtered [OF fileFilter_exe(1)] by blast

text \<open>
  C8 says that every error answer has the body \<^verbatim>\<open>{success: false, error: message}\<close>. The
  answer to an upload without a file is status 400 with the body
  \<^verbatim>\<open>{error: 'No file uploaded'}\<close>: it has no \<^verbatim>\<open>success\<close> property.
\<close>

theorem no_file_response:
  "post_api_upload now t None c =
     (\<lparr>status = 400, headers = [],
       body = JsonBody (JObj [(''error'', JStr ''No file uploaded'')])\<rparr>, c) \<and>
   get_prop (json_of (fst (post_api_upload now t None c))) ''success'' = JUndefined \<and>
   get_prop (json_of (fst (post_api_upload now t None c))) ''success'' \<noteq> JBool False"
  by (simp add: upload_no_file json_of_def)

text \<open>
  C5: a successful upload stores the file under the decimal text of \<^verbatim>\<open>Date.now()\<close>, a
  \<open>-\<close> and the original name, and answers with that name as \<^verbatim>\<open>fileName\<close>, the original
  name, the size and the content type. A second successful upload of a file of the same
  name in the same millisecond gets the same \<^verbatim>\<open>fileName\<close>; the container then holds the
  second file under it, and no other entry is added.
\<close>

theorem upload_key_echo:
  assumes "status (fst (post_api_upload now t part c)) = 200"
  shows "\<exists>f. part = Some f \<and>
           post_api_upload now t part c =
             (\<lparr>status = 200, headers = [],
               body = JsonBody (JObj [(''success'', JBool True),
                                      (''message'', JStr ''File uploaded successfully''),
                                      (''fileName'', JStr (decimal now @ ''-'' @ originalname f)),
                                      (''originalName'', JStr (originalname f)),
                                      (''size'', JNum (length (buffer f))),
                                      (''contentType'', JStr (mimetype f))])\<rparr>,
              upsert (decimal now @ ''-'' @ originalname f)
                \<lparr>data = buffer f, stored_type = Some (mimetype f), stored_time = t\<rparr> c) \<and>
           (\<forall>t' g. originalname g = originalname f \<and>
              status (fst (post_api_upload now t' (Some g) (snd (post_api_upload now t part c)))) = 200 \<longrightarrow>
              get_prop (json_of (fst (post_api_upload now t' (Some g) (snd (post_api_upload now t part c)))))
                ''fileName'' =
              get_prop (json_of (fst (post_api_upload now t part c))) ''fileName'' \<and>
              map_of (snd (post_api_upload now t' (Some g) (snd (post_api_upload now t part c))))
                (decimal now @ ''-'' @ originalname f) =
                Some \<lparr>data = buffer g, stored_type = Some (mimetype g), stored_time = t'\<rparr> \<and>
              map fst (snd (post_api_upload now t' (Some g) (snd (post_api_upload now t part c)))) =
              map fst (snd (post_api_upload now t part c)))"
proof -
  from upload_success_only [OF assms] obtain f where
    f: "part = Some f" "fileFilter f = Inr True" "length (buffer f) \<le> fileSize"
    by blast
  let ?key = "decimal now @ ''-'' @ originalname f"
  let ?c1 = "upsert ?key \<lparr>data = buffer f, stored_type = Some (mimetype f), stored_time = t\<rparr> c"
  have up: "post_api_upload now t part c =
             (\<lparr>status = 200, headers = [],
               body = JsonBody (JObj [(''success'', JBool True),
                                      (''message'', JStr ''File uploaded successfully''),
                                      (''fileName'', JStr ?key),
                                      (''originalName'', JStr (originalname f)),
                                      (''size'', JNum (length (buffer f))),
                                      (''contentType'', JStr (mimetype f))])\<rparr>, ?c1)"
    using upload_accepted [OF f(2,3), of now t c] f(1) by (simp add: fileName_of_def)
  have second: "\<forall>t' g. originalname g = originalname f \<and>
              status (fst (post_api_upload now t' (Some g) (snd (post_api_upload now t part c)))) = 200 \<longrightarrow>
              get_prop (json_of (fst (post_api_upload now t' (Some g) (snd (post_api_upload now t part c)))))
                ''fileName'' =
              get_prop (json_of (fst (post_api_upload now t part c))) ''fileName'' \<and>
              map_of (snd (post_api_upload now t' (Some g) (snd (post_api_upload now t part c)))) ?key =
                Some \<lparr>data = buffer g, stored_type = Some (mimetype g), stored_time = t'\<rparr> \<and>
              map fst (snd (post_api_upload now t' (Some g) (snd (post_api_upload now t part c)))) =
              map fst (snd (post_api_upload now t part c))"
  proof (intro allI impI, elim conjE)
    fix t' g
    assume n: "originalname g = originalname f"
      and s: "status (fst (post_api_upload now t' (Some g) (snd (post_api_upload now t part c)))) = 200"
    from upload_success_only [OF s]
    have g: "fileFilter g = Inr True" "length (buffer g) \<le> fileSize" by simp_all
    have "map_of ?c1 ?key \<noteq> None" by (simp add: map_of_upsert)
    then have "?key \<in> fst ` set ?c1" by (simp add: map_of_eq_None_iff)
    then have keys: "map fst (upsert ?key
        \<lparr>data = buffer g, stored_type = Some (mimetype g), stored_time = t'\<rparr> ?c1) = map fst ?c1"
      by (rule keys_upsert_present)
    show "get_prop (json_of (fst (post_api_upload now t' (Some g) (snd (post_api_upload now t part c)))))
                ''fileName'' =
              get_prop (json_of (fst (post_api_upload now t part c))) ''fileName'' \<and>
              map_of (snd (post_api_upload now t' (Some g) (snd (post_api_upload now t part c)))) ?key =
                Some \<lparr>data = buffer g, stored_type = Some (mimetype g), stored_time = t'\<rparr> \<and>
              map fst (snd (post_api_upload now t' (Some g) (snd (post_api_upload now t part c)))) =
              map fst (snd (post_api_upload now t part c))"
      unfolding up using upload_accepted [OF g, of now t' ?c1] n keys
      by (simp add: fileName_of_def json_of_def map_of_upsert)
  qed
  from f(1) up second show ?thesis by blast
qed

theorem upload_key_echo_witness:
  "status (fst (post_api_upload 17 3
      (Some \<lparr>originalname = ''notes.txt'', mimetype = ''text/plain'', buffer = [104, 105]\<rparr>) [])) = 200 \<and>
   post_api_upload 17 3
      (Some \<lparr>originalname = ''notes.txt'', mimetype = ''text/plain'', buffer = [104, 105]\<rparr>) [] =
     (\<lparr>status = 200, headers = [],
       body = JsonBody (JObj [(''success'', JBool True),
                              (''message'', JStr ''File uploaded successfully''),
                              (''fileName'', JStr ''17-notes.txt''),
                              (''originalName'', JStr ''notes.txt''),
                              (''size'', JNum 2),
                              (''contentType'', JStr ''text/plain'')])\<rparr>,
      [(''17-notes.txt'', \<lparr>data = [104, 105], stored_type = Some ''text/plain'', stored_time = 3\<rparr>)])"
proof -
  let ?f = "\<lparr>originalname = ''notes.txt'', mimetype = ''text/plain'', buffer = [104, 105]\<rparr>"
  have "length (buffer ?f) \<le> fileSize" by (simp add: fileSize_def)
  from upload_accepted [OF fileFilter_notes_txt this, of 17 3 "[]"]
  have s: "status (fst (post_api_upload 17 3 (Some ?f) [])) = 200" by simp
  from upload_key_echo [OF s] obtain f where
    f: "Some ?f = Some f"
    "post_api_upload 17 3 (Some ?f) [] =
             (\<lparr>status = 200, headers = [],
               body = JsonBody (JObj [(''success'', JBool True),
                                      (''message'', JStr ''File uploaded successfully''),
                                      (''fileName'', JStr (decimal 17 @ ''-'' @ originalname f)),
                                      (''originalName'', JStr (originalname f)),
                                      (''size'', JNum (length (buffer f))),
                                      (''contentType'', JStr (mimetype f))])\<rparr>,
              upsert (decimal 17 @ ''-'' @ originalname f)
                \<lparr>data = buffer f, stored_type = Some (mimetype f), stored_time = 3\<rparr> [])"
    by blast
  from f(1) have "f = ?f" by simp
  with f(2) s show ?thesis by (simp add: decimal_17)
qed

subsection \<open>Downloading\<close>




subsection \<open>Deleting\<close>

text \<open>
  C4: \<^verbatim>\<open>DELETE /api/files/:fileName\<close> on a name the container does not have answers 404
  \<^verbatim>\<open>File not found\<close> and leaves the container as it was. On a name the container has it
  answers success and removes the blob: the name is absent afterwards, every other name
  keeps its blob, and a second delete of the same name answers 404 and changes nothing
  more.
\<close>

theorem delete_remove:
  "(map_of c k = None \<longrightarrow> delete_api_files k c = (not_found, c)) \<and>
   status not_found = 404 \<and>
   (\<forall>b. map_of c k = Some b \<longrightarrow>
      delete_api_files k c =
        (\<lparr>status = 200, headers = [],
          body = JsonBody (JObj [(''success'', JBool True),
                                 (''message'', JStr ''File deleted successfully'')])\<rparr>,
         filter (\<lambda>e. fst e \<noteq> k) c) \<and>
      \<not> blob_exists (snd (delete_api_files k c)) k \<and>
      (\<forall>k'. k' \<noteq> k \<longrightarrow> map_of (snd (delete_api_files k c)) k' = map_of c k') \<and>
      delete_api_files k (snd (delete_api_files k c)) = (not_found, snd (delete_api_files k c)))"
proof -
  have absent: "map_of c k = None \<longrightarrow> delete_api_files k c = (not_found, c)"
    by (simp add: delete_absent)
  have nf: "status not_found = 404" by (simp add: not_found_eq)
  have present: "\<forall>b. map_of c k = Some b \<longrightarrow>
      delete_api_files k c =
        (\<lparr>status = 200, headers = [],
          body = JsonBody (JObj [(''success'', JBool True),
                                 (''message'', JStr ''File deleted successfully'')])\<rparr>,
         filter (\<lambda>e. fst e \<noteq> k) c) \<and>
      \<not> blob_exists (snd (delete_api_files k c)) k \<and>
      (\<forall>k'. k' \<noteq> k \<longrightarrow> map_of (snd (delete_api_files k c)) k' = map_of c k') \<and>
      delete_api_files k (snd (delete_api_files k c)) = (not_found, snd (delete_api_files k c))"
  proof (intro allI impI)
    fix b assume b: "map_of c k = Some b"
    let ?c' = "filter (\<lambda>e. fst e \<noteq> k) c"
    note d = delete_present [OF b]
    have gone: "map_of ?c' k = None" by (rule map_of_remove_same)
    show "delete_api_files k c =
        (\<lparr>status = 200, headers = [],
          body = JsonBody (JObj [(''success'', JBool True),
                                 (''message'', JStr ''File deleted successfully'')])\<rparr>, ?c') \<and>
      \<not> blob_exists (snd (delete_api_files k c)) k \<and>
      (\<forall>k'. k' \<noteq> k \<longrightarrow> map_of (snd (delete_api_files k c)) k' = map_of c k') \<and>
      delete_api_files k (snd (delete_api_files k c)) = (not_found, snd (delete_api_files k c))"
      unfolding d using gone by (simp add: blob_exists_def map_of_remove_other delete_absent)
  qed
  from absent nf present show ?thesis by blast
qed

theorem delete_remove_witness:
  "map_of [(''17-notes.txt'', \<lparr>data = [1, 2], stored_type = Some ''text/plain'', stored_time = 3\<rparr>)]
     ''17-notes.txt'' =
     Some \<lparr>data = [1, 2], stored_type = Some ''text/plain'', stored_time = 3\<rparr> \<and>
   fst (delete_api_files ''17-notes.txt''
     [(''17-notes.txt'', \<lparr>data = [1, 2], stored_type = Some ''text/plain'', stored_time = 3\<rparr>)]) =
     \<lparr>status = 200, headers = [],
      body = JsonBody (JObj [(''success'', JBool True),
                             (''message'', JStr ''File deleted successfully'')])\<rparr> \<and>
   snd (delete_api_files ''17-notes.txt''
     [(''17-notes.txt'', \<lparr>data = [1, 2], stored_type = Some ''text/plain'', stored_time = 3\<rparr>)]) = [] \<and>
   map_of ([] :: container) ''17-notes.txt'' = None \<and>
   delete_api_files ''17-notes.txt'' [] = (not_found, [])"
proof -
  let ?b = "\<lparr>data = [1, 2], stored_type = Some ''text/plain'', stored_time = 3\<rparr>"
  have p: "map_of [(''17-notes.txt'', ?b)] ''17-notes.txt'' = Some ?b" by simp
  have a: "map_of ([] :: container) ''17-notes.txt'' = None" by simp
  from delete_remove [of "[(''17-notes.txt'', ?b)]" "''17-notes.txt''"] p
  have "delete_api_files ''17-notes.txt'' [(''17-notes.txt'', ?b)] =
        (\<lparr>status = 200, headers = [],
          body = JsonBody (JObj [(''success'', JBool True),
                                 (''message'', JStr ''File deleted successfully'')])\<rparr>,
         filter (\<lambda>e. fst e \<noteq> ''17-notes.txt'') [(''17-notes.txt'', ?b)])"
    by blast
  moreover from delete_remove [of "[]" "''17-notes.txt''"] a
  have "delete_api_files ''17-notes.txt'' [] = (not_found, [])" by blast
  ultimately show ?thesis using p a by simp
qed

subsection \<open>Recovering the original name\<close>

text \<open>
  C6: the \<^verbatim>\<open>originalName\<close> of a listed blob is its name without the first
  \<open>-\<close>-delimited piece, the remaining pieces joined with \<open>-\<close> again: the text after the
  first \<open>-\<close>. The name \<^verbatim>\<open>1700000000000-invoice.pdf\<close> gives \<^verbatim>\<open>invoice.pdf\<close>, and a name
  with no \<open>-\<close> gives the empty string.
\<close>

theorem originalName_recovery:
  "originalName_of blob_name = join ''-'' (tl (split CHR ''-'' blob_name)) \<and>
   (\<forall>ts rest. CHR ''-'' \<notin> set ts \<longrightarrow> originalName_of (ts @ CHR ''-'' # rest) = rest) \<and>
   (CHR ''-'' \<notin> set blob_name \<longrightarrow> originalName_of blob_name = []) \<and>
   originalName_of ''1700000000000-invoice.pdf'' = ''invoice.pdf'' \<and>
   get_prop (file_entry url blob) ''originalName'' = JStr (originalName_of (name blob))"
proof -
  have "originalName_of blob_name = join ''-'' (tl (split CHR ''-'' blob_name))"
    by (simp add: originalName_of_def slice1_def drop_Suc)
  moreover have "originalName_of ''1700000000000-invoice.pdf'' = ''invoice.pdf''"
    using originalName_of_prefix [of "''1700000000000''" "''invoice.pdf''"] by simp
  moreover have "get_prop (file_entry url blob) ''originalName'' = JStr (originalName_of (name blob))"
    by (simp add: file_entry_def)
  ultimately show ?thesis
    using originalName_of_prefix originalName_of_no_dash by blast
qed

theorem originalName_recovery_witness:
  "CHR ''-'' \<notin> set ''1700000000000'' \<and> CHR ''-'' \<notin> set ''readme'' \<and>
   originalName_of (''1700000000000'' @ CHR ''-'' # ''a-b.txt'') = ''a-b.txt'' \<and>
   originalName_of ''readme'' = []"
proof -
  note r = originalName_recovery [of "''readme''" "\<lambda>n. n"
      "\<lparr>name = ''readme'',
        properties = \<lparr>contentLength = 0, contentType = None, lastModified = 0\<rparr>\<rparr>"]
  have d: "CHR ''-'' \<notin> set ''1700000000000''" "CHR ''-'' \<notin> set ''readme''"
    by simp_all
  from r have "CHR ''-'' \<notin> set ''1700000000000'' \<longrightarrow>
      originalName_of (''1700000000000'' @ CHR ''-'' # ''a-b.txt'') = ''a-b.txt''"
    by blast
  moreover from r have "CHR ''-'' \<notin> set ''readme'' \<longrightarrow> originalName_of ''readme'' = []"
    by blast
  ultimately show ?thesis using d by blast
qed

text \<open>
  C9, as the specification states it: some original name with a leading piece followed by
  \<open>-\<close> is not recovered from the blob name the upload builds for it. There is no such
  name: the recovery is exact for every name of that form.
\<close>

theorem recovery_lossy_counterexample:
  "\<not> (\<exists>now segment rest.
        originalName_of (fileName_of now (segment @ CHR ''-'' # rest)) \<noteq> segment @ CHR ''-'' # rest)"
  by (simp add: originalName_of_fileName_of)

text \<open>
  C9, amended: \<^verbatim>\<open>originalName\<close> is recovered exactly from every blob name the upload
  builds, whatever the original name is, because the decimal time stamp in front has no
  \<open>-\<close>. The original name \<^verbatim>\<open>2024-report.pdf\<close> is recovered as it is.
\<close>

theorem recovery_exact:
  "originalName_of (fileName_of now original) = original \<and>
   originalName_of (fileName_of 1700000000000 ''2024-report.pdf'') = ''2024-report.pdf''"
  by (simp add: originalName_of_fileName_of)

subsection \<open>Listing\<close>


end
